theory Spec2Isabelle
  imports Complex_Main "HOL-Library.AList"
begin

section \<open>Python values, dictionaries and exceptions\<close>

text \<open>
  The pipeline passes API payloads around as Python dictionaries decoded from JSON. A
  dictionary is an association list with unique keys in insertion order; a number is a
  real (Python floats and ints, taken with exact arithmetic).
\<close>

datatype json =
    JNull
  | JBool bool
  | JNum real
  | JStr string
  | JArr "json list"
  | JObj "(string \<times> json) list"

type_synonym pydict = "(string \<times> json) list"

text \<open>\<^verbatim>\<open>key in d\<close>, \<^verbatim>\<open>d.get(key, default)\<close> and \<^verbatim>\<open>d[key] = v\<close> on a dict.\<close>

definition has_key :: "string \<Rightarrow> (string \<times> 'v) list \<Rightarrow> bool" where
  "has_key k d = (case map_of d k of None \<Rightarrow> False | Some v \<Rightarrow> True)"

definition dict_get :: "(string \<times> 'v) list \<Rightarrow> string \<Rightarrow> 'v \<Rightarrow> 'v" where
  "dict_get d k dflt = (case map_of d k of None \<Rightarrow> dflt | Some v \<Rightarrow> v)"

definition dict_set :: "string \<Rightarrow> 'v \<Rightarrow> (string \<times> 'v) list \<Rightarrow> (string \<times> 'v) list" where
  "dict_set k v d = AList.update k v d"

text \<open>
  An exception is its class and the text \<^verbatim>\<open>str(e)\<close>. \<open>Timeout\<close>, \<open>HTTPError\<close> and
  \<open>ConnectionError\<close> are the subclasses of \<^verbatim>\<open>requests.exceptions.RequestException\<close>
  that the client meets.
\<close>

datatype exn_class =
    ValueError | Timeout | HTTPError | ConnectionError | RequestException
  | AttributeError | TypeError | IndexError | KeyError | OverflowError | StatisticsError
  | DatabaseError

datatype exn = Exn exn_class string

fun exn_class_of :: "exn \<Rightarrow> exn_class" where
  "exn_class_of (Exn c m) = c"

fun str_exn :: "exn \<Rightarrow> string" where
  "str_exn (Exn c m) = m"

fun is_Timeout :: "exn \<Rightarrow> bool" where
  "is_Timeout (Exn c m) = (c = Timeout)"

fun is_RequestException :: "exn \<Rightarrow> bool" where
  "is_RequestException (Exn c m) =
     (c = Timeout \<or> c = HTTPError \<or> c = ConnectionError \<or> c = RequestException)"

text \<open>\<^verbatim>\<open>x.get(key, default)\<close> on an arbitrary decoded value: only a dict has \<^verbatim>\<open>get\<close>.\<close>

definition py_get :: "json \<Rightarrow> string \<Rightarrow> json \<Rightarrow> exn + json" where
  "py_get x k dflt =
     (case x of
        JObj d \<Rightarrow> Inr (dict_get d k dflt)
      | _ \<Rightarrow> Inl (Exn AttributeError ''object has no attribute 'get' ''))"

text \<open>Truth value of a decoded value, as \<^verbatim>\<open>if x:\<close> and \<^verbatim>\<open>x or y\<close> take it.\<close>

fun truthy :: "json \<Rightarrow> bool" where
  "truthy JNull = False"
| "truthy (JBool b) = b"
| "truthy (JNum r) = (r \<noteq> 0)"
| "truthy (JStr s) = (s \<noteq> [])"
| "truthy (JArr xs) = (xs \<noteq> [])"
| "truthy (JObj d) = (d \<noteq> [])"

section \<open>Observation records and the table\<close>

text \<open>
  The dict built by \<^verbatim>\<open>prepare_observation_record\<close>, and a row of
  \<^verbatim>\<open>raw.weather_observations\<close>: the same columns with the surrogate id and the two audit
  stamps. A \<^verbatim>\<open>datetime\<close> is a real number of seconds; the payload columns hold the dict
  that \<^verbatim>\<open>json.dumps\<close> serialises.
\<close>

record observation =
  ob_city :: json
  ob_country :: json
  ob_latitude :: json
  ob_longitude :: json
  ob_observation_time :: real
  ob_weather_data :: pydict
  ob_air_quality_data :: "pydict option"

record db_row = observation +
  row_id :: nat
  created_at :: real
  updated_at :: real

section \<open>The outside world: clock, network, sleeping, database\<close>

text \<open>
  Every effect of the pipeline goes through one record. The clock is the sequence of
  readings \<^verbatim>\<open>datetime.utcnow()\<close> will give; the network answers a request from the log
  of all requests made so far (the current one last); \<open>fmt_time\<close> and \<open>fmt_json\<close> stand
  for \<^verbatim>\<open>datetime.isoformat\<close> and for Python's \<^verbatim>\<open>str\<close> inside f-strings. The database is
  the table, the next value of its \<^verbatim>\<open>SERIAL\<close> id, whether a unique index over
  \<^verbatim>\<open>(city, observation_time)\<close> exists, and the error a connection attempt meets, if any;
  \<open>load_calls\<close> logs the batches handed to the loader.
\<close>

record request =
  url :: string
  params :: pydict

record response =
  status_code :: nat
  http_error_text :: string
  body :: "exn + json"

record world =
  clock :: "nat \<Rightarrow> real"
  clock_reads :: nat
  net :: "request list \<Rightarrow> exn + response"
  requests_log :: "request list"
  sleeps :: "nat list"
  fmt_time :: "real \<Rightarrow> string"
  fmt_json :: "json \<Rightarrow> string"
  db_connect_error :: "exn option"
  db_unique_city_time :: bool
  db_table :: "db_row list"
  db_next_id :: nat
  load_calls :: "observation list list"

definition utcnow :: "world \<Rightarrow> real \<times> world" where
  "utcnow w = (clock w (clock_reads w), w\<lparr>clock_reads := Suc (clock_reads w)\<rparr>)"

definition time_sleep :: "nat \<Rightarrow> world \<Rightarrow> world" where
  "time_sleep n w = w\<lparr>sleeps := sleeps w @ [n]\<rparr>"

text \<open>\<^verbatim>\<open>requests.get(url, params=params, timeout=30)\<close>: one attempt, logged.\<close>

definition requests_get :: "world \<Rightarrow> string \<Rightarrow> pydict \<Rightarrow> (exn + response) \<times> world" where
  "requests_get w u ps =
     (let lg = requests_log w @ [\<lparr>url = u, params = ps\<rparr>]
      in (net w lg, w\<lparr>requests_log := lg\<rparr>))"

text \<open>\<^verbatim>\<open>response.raise_for_status()\<close> raises \<open>HTTPError\<close> for a status in 400..599.\<close>

definition raise_for_status :: "response \<Rightarrow> exn option" where
  "raise_for_status r =
     (if 400 \<le> status_code r \<and> status_code r < 600
      then Some (Exn HTTPError (http_error_text r)) else None)"

section \<open>WeatherClient\<close>

record weather_client =
  api_key :: string
  base_url :: string

text \<open>
  \<^verbatim>\<open>WeatherClient._make_request\<close>. The two \<^verbatim>\<open>except\<close> clauses catch a timeout and any
  other \<open>RequestException\<close>, and re-raise on the last attempt; a \<open>ValueError\<close> (401, 404)
  is caught by neither. \<open>except_clauses\<close> is that dispatch: \<open>None\<close> when the loop goes on
  to the next attempt, the exception when it leaves the function.
\<close>

definition except_clauses :: "exn \<Rightarrow> nat \<Rightarrow> nat \<Rightarrow> exn option" where
  "except_clauses e attempt retries =
     (if is_Timeout e then (if int attempt = int retries - 1 then Some e else None)
      else if is_RequestException e then (if int attempt = int retries - 1 then Some e else None)
      else Some e)"

fun make_request_loop ::
  "world \<Rightarrow> string \<Rightarrow> pydict \<Rightarrow> nat \<Rightarrow> nat list \<Rightarrow> (exn + json) \<times> world" where
  "make_request_loop w u ps retries [] =
     (Inl (Exn RequestException ''Max retries exceeded''), w)"
| "make_request_loop w u ps retries (attempt # rest) =
     (case requests_get w u ps of
        (Inl e, w1) \<Rightarrow>
          (case except_clauses e attempt retries of
             Some e' \<Rightarrow> (Inl e', w1)
           | None \<Rightarrow> make_request_loop w1 u ps retries rest)
      | (Inr r, w1) \<Rightarrow>
          if status_code r = 401 then
            (Inl (Exn ValueError ''Invalid API key (401 Unauthorized)''), w1)
          else if status_code r = 404 then
            (Inl (Exn ValueError ''Location not found (404)''), w1)
          else if status_code r = 429 then
            make_request_loop (time_sleep (2 ^ attempt) w1) u ps retries rest
          else
            (case raise_for_status r of
               Some e \<Rightarrow>
                 (case except_clauses e attempt retries of
                    Some e' \<Rightarrow> (Inl e', w1)
                  | None \<Rightarrow> make_request_loop w1 u ps retries rest)
             | None \<Rightarrow>
                 (case body r of
                    Inl e \<Rightarrow>
                      (case except_clauses e attempt retries of
                         Some e' \<Rightarrow> (Inl e', w1)
                       | None \<Rightarrow> make_request_loop w1 u ps retries rest)
                  | Inr data \<Rightarrow> (Inr data, w1))))"

definition make_request ::
  "world \<Rightarrow> string \<Rightarrow> pydict \<Rightarrow> nat \<Rightarrow> (exn + json) \<times> world" where
  "make_request w u ps retries = make_request_loop w u ps retries [0..<retries]"

text \<open>
  The ways one attempt can fail and be retried: the call times out, the server signals a
  rate limit (429), or the server answers 5xx.
\<close>

datatype retryable = RTimeout string | RRateLimit | RServerError nat string

fun retryable_outcome :: "retryable \<Rightarrow> exn + response" where
  "retryable_outcome (RTimeout m) = Inl (Exn Timeout m)"
| "retryable_outcome RRateLimit =
     Inr \<lparr>status_code = 429, http_error_text = ''429 Too Many Requests'', body = Inr JNull\<rparr>"
| "retryable_outcome (RServerError c m) =
     Inr \<lparr>status_code = 500 + c mod 100, http_error_text = m, body = Inr JNull\<rparr>"

text \<open>The terminal error after a last attempt that failed in the given way.\<close>

fun terminal_error :: "retryable \<Rightarrow> exn" where
  "terminal_error (RTimeout m) = Exn Timeout m"
| "terminal_error RRateLimit = Exn RequestException ''Max retries exceeded''"
| "terminal_error (RServerError c m) = Exn HTTPError m"

text \<open>
  A world for concrete runs: the database is reachable and holds the empty table as
  \<^verbatim>\<open>init_db\<close> creates it, with plain indexes only.
\<close>

definition test_world :: "(request list \<Rightarrow> exn + response) \<Rightarrow> world" where
  "test_world n =
     \<lparr>clock = (\<lambda>i. 1000 + real i), clock_reads = 0, net = n, requests_log = [], sleeps = [],
      fmt_time = (\<lambda>t. ''T''), fmt_json = (\<lambda>j. case j of JStr s \<Rightarrow> s | _ \<Rightarrow> ''?''),
      db_connect_error = None, db_unique_city_time = False, db_table = [], db_next_id = 1,
      load_calls = []\<rparr>"

text \<open>
  A scripted network for concrete runs: the i-th request of the run gets the i-th entry
  of the script, and a refused connection once the script is used up.
\<close>

definition scripted_net :: "(exn + response) list \<Rightarrow> request list \<Rightarrow> exn + response" where
  "scripted_net script lg =
     (if lg \<noteq> [] \<and> length lg - 1 < length script then script ! (length lg - 1)
      else Inl (Exn ConnectionError ''connection refused''))"

definition three_timeouts :: "(exn + response) list" where
  "three_timeouts =
     map retryable_outcome [RTimeout ''Read timed out'', RTimeout ''Read timed out'',
       RTimeout ''Read timed out'']"

definition timeout_server_limit :: "retryable list" where
  "timeout_server_limit = [RTimeout ''Read timed out'', RServerError 3 ''503 Server Error'', RRateLimit]"

section \<open>Stored records as the analyzer reads them\<close>

text \<open>
  \<^verbatim>\<open>WeatherDataTransformer\<close> reads rows of \<^verbatim>\<open>raw.weather_observations\<close> and decodes the
  two payload columns with \<^verbatim>\<open>json.loads\<close>. A column is NULL, a text that is not JSON
  (with the decoder's message), or a text that decodes to a document. Documents are
  taken at the schema the pipeline writes: a section is an object when present, a
  measurement is a number, or \<open>None\<close> when its key is missing or null.
\<close>

datatype 'a column = NullCol | Malformed string | Doc 'a

record main_section =
  temp :: "real option"
  humidity :: "real option"

record weather_doc =
  wd_error :: "string option"
  wd_main :: "main_section option"
  wd_weather :: bool
  wd_coord :: bool

record aq_obs =
  AQI :: "real option"

record aq_doc =
  aq_error :: bool
  aq_observations :: "aq_obs list option"
  aq_other_keys :: nat

text \<open>The empty dict \<^verbatim>\<open>{}\<close>, and the truth value of an air-quality dict.\<close>

definition empty_weather_doc :: weather_doc where
  "empty_weather_doc = \<lparr>wd_error = None, wd_main = None, wd_weather = False, wd_coord = False\<rparr>"

definition empty_aq_doc :: aq_doc where
  "empty_aq_doc = \<lparr>aq_error = False, aq_observations = None, aq_other_keys = 0\<rparr>"

definition aq_nonempty :: "aq_doc \<Rightarrow> bool" where
  "aq_nonempty a = (aq_error a \<or> aq_observations a \<noteq> None \<or> 0 < aq_other_keys a)"

definition has_field :: "weather_doc \<Rightarrow> string \<Rightarrow> bool" where
  "has_field wd f =
     (if f = ''main'' then wd_main wd \<noteq> None
      else if f = ''weather'' then wd_weather wd
      else if f = ''coord'' then wd_coord wd
      else if f = ''error'' then wd_error wd \<noteq> None
      else False)"

text \<open>
  The record handed to \<^verbatim>\<open>validate_weather_data\<close> is a dict: \<open>None\<close> is a missing key,
  for which \<^verbatim>\<open>record.get('weather_data', '{}')\<close> supplies the text of the empty dict.
\<close>

record stored_record =
  sr_weather_data :: "weather_doc column option"
  sr_air_quality_data :: "aq_doc column option"

record validation_results =
  is_valid :: bool
  issues :: "string list"

definition add_issue :: "string \<Rightarrow> validation_results \<Rightarrow> validation_results" where
  "add_issue s v = v\<lparr>issues := issues v @ [s]\<rparr>"

definition mark_invalid :: "validation_results \<Rightarrow> validation_results" where
  "mark_invalid v = v\<lparr>is_valid := False\<rparr>"

text \<open>
  \<^verbatim>\<open>json.loads\<close> of the weather column: \<^verbatim>\<open>json.loads(None)\<close> raises \<open>TypeError\<close>, and
  a text that is not JSON raises \<open>JSONDecodeError\<close>, told apart by the two \<^verbatim>\<open>except\<close>
  clauses of the validator.
\<close>

datatype 'a loaded = Loaded 'a | DecodeError string | OtherError string

definition loads_weather :: "weather_doc column option \<Rightarrow> weather_doc loaded" where
  "loads_weather c =
     (case c of
        None \<Rightarrow> Loaded empty_weather_doc
      | Some NullCol \<Rightarrow>
          OtherError ''the JSON object must be str, bytes or bytearray, not NoneType''
      | Some (Malformed m) \<Rightarrow> DecodeError m
      | Some (Doc d) \<Rightarrow> Loaded d)"

text \<open>
  \<^verbatim>\<open>json.loads(record.get('air_quality_data', '{}')) if record.get('air_quality_data') else {}\<close>:
  a missing key and NULL are falsy.
\<close>

definition loads_aqi :: "aq_doc column option \<Rightarrow> aq_doc loaded" where
  "loads_aqi c =
     (case c of
        None \<Rightarrow> Loaded empty_aq_doc
      | Some NullCol \<Rightarrow> Loaded empty_aq_doc
      | Some (Malformed m) \<Rightarrow> DecodeError m
      | Some (Doc d) \<Rightarrow> Loaded d)"

section \<open>validate\_weather\_data\<close>

text \<open>
  The checks in the order of the source. \<open>fmt\<close> stands for the f-string rendering of a
  number. Only the error envelope and a missing field set \<^verbatim>\<open>is_valid\<close> to False; the
  three range checks append their issue and leave the flag alone.
\<close>

definition check_required :: "weather_doc \<Rightarrow> validation_results \<Rightarrow> validation_results" where
  "check_required wd v =
     fold (\<lambda>field v'. if \<not> has_field wd field
                        then mark_invalid (add_issue (''Missing weather field: '' @ field) v')
                        else v')
       [''main'', ''weather'', ''coord''] v"

definition check_temperature ::
  "(real \<Rightarrow> string) \<Rightarrow> weather_doc \<Rightarrow> validation_results \<Rightarrow> validation_results" where
  "check_temperature fmt wd v =
     (case (case wd_main wd of None \<Rightarrow> None | Some m \<Rightarrow> temp m) of
        None \<Rightarrow> v
      | Some t \<Rightarrow>
          if t < - 100 \<or> t > 70
          then add_issue (''Temperature out of range: '' @ fmt t @ [CHR 0xC2, CHR 0xB0] @ ''C'') v
          else v)"

definition check_humidity ::
  "(real \<Rightarrow> string) \<Rightarrow> weather_doc \<Rightarrow> validation_results \<Rightarrow> validation_results" where
  "check_humidity fmt wd v =
     (case (case wd_main wd of None \<Rightarrow> None | Some m \<Rightarrow> humidity m) of
        None \<Rightarrow> v
      | Some h \<Rightarrow>
          if h < 0 \<or> h > 100
          then add_issue (''Humidity out of range: '' @ fmt h @ ''%'') v
          else v)"

definition check_weather ::
  "(real \<Rightarrow> string) \<Rightarrow> weather_doc \<Rightarrow> validation_results \<Rightarrow> validation_results" where
  "check_weather fmt wd v =
     (case wd_error wd of
        Some err \<Rightarrow> mark_invalid (add_issue (''Weather API error: '' @ err) v)
      | None \<Rightarrow> check_humidity fmt wd (check_temperature fmt wd (check_required wd v)))"

definition check_aqi ::
  "(real \<Rightarrow> string) \<Rightarrow> aq_doc \<Rightarrow> validation_results \<Rightarrow> validation_results" where
  "check_aqi fmt a v =
     (if aq_nonempty a \<and> \<not> aq_error a then
        (let observations = (case aq_observations a of None \<Rightarrow> [] | Some os \<Rightarrow> os)
         in if observations \<noteq> [] then
              fold (\<lambda>obs v'.
                      case AQI obs of
                        None \<Rightarrow> v'
                      | Some aqi_value \<Rightarrow>
                          if aqi_value < 0 \<or> aqi_value > 500
                          then add_issue (''AQI out of range: '' @ fmt aqi_value) v'
                          else v')
                observations v
            else v)
      else v)"

definition validate_weather_data ::
  "(real \<Rightarrow> string) \<Rightarrow> stored_record \<Rightarrow> validation_results" where
  "validate_weather_data fmt record =
     (let v0 = \<lparr>is_valid = True, issues = []\<rparr>
      in case loads_weather (sr_weather_data record) of
           DecodeError m \<Rightarrow> mark_invalid (add_issue (''JSON parsing error: '' @ m) v0)
         | OtherError m \<Rightarrow> mark_invalid (add_issue (''Validation error: '' @ m) v0)
         | Loaded wd \<Rightarrow>
             (case loads_aqi (sr_air_quality_data record) of
                DecodeError m \<Rightarrow> mark_invalid (add_issue (''JSON parsing error: '' @ m) v0)
              | OtherError m \<Rightarrow> mark_invalid (add_issue (''Validation error: '' @ m) v0)
              | Loaded a \<Rightarrow> check_aqi fmt a (check_weather fmt wd v0)))"

text \<open>A result is consistent when it is valid or lists at least one issue.\<close>

definition flagged :: "validation_results \<Rightarrow> bool" where
  "flagged v = (is_valid v \<or> issues v \<noteq> [])"

section \<open>run\_data\_quality\_check\<close>

text \<open>
  \<^verbatim>\<open>round(x, ndigits)\<close> on exact numbers: to the nearest multiple of \<open>10^-ndigits\<close>, a tie
  going to the even neighbour.
\<close>

definition round_half_even :: "real \<Rightarrow> int" where
  "round_half_even y =
     (let f = \<lfloor>y\<rfloor>; d = y - of_int f
      in if d < 1 / 2 then f else if d > 1 / 2 then f + 1
         else if even f then f else f + 1)"

definition py_round :: "real \<Rightarrow> nat \<Rightarrow> real" where
  "py_round x ndigits = of_int (round_half_even (x * 10 ^ ndigits)) / 10 ^ ndigits"

text \<open>\<^verbatim>\<open>issue.split(':')[0] if ':' in issue else 'Other'\<close>\<close>

definition category :: "string \<Rightarrow> string" where
  "category issue =
     (if CHR '':'' \<in> set issue then takeWhile (\<lambda>c. c \<noteq> CHR '':'') issue else ''Other'')"






definition weather_with_humidity :: "real \<Rightarrow> weather_doc" where
  "weather_with_humidity h =
     \<lparr>wd_error = None, wd_main = Some \<lparr>temp = Some 20, humidity = Some h\<rparr>,
      wd_weather = True, wd_coord = True\<rparr>"


definition record_humidity_150 :: stored_record where
  "record_humidity_150 =
     \<lparr>sr_weather_data = Some (Doc (weather_with_humidity 150)), sr_air_quality_data = Some NullCol\<rparr>"




section \<open>Trend statistics\<close>

text \<open>
  The functions of Python's \<^verbatim>\<open>statistics\<close> module and the built-ins \<^verbatim>\<open>min\<close> and \<^verbatim>\<open>max\<close>,
  each with the input it rejects. \<open>bind_exn\<close> passes a raised exception on.
\<close>

definition bind_exn :: "exn + 'a \<Rightarrow> ('a \<Rightarrow> exn + 'b) \<Rightarrow> exn + 'b" where
  "bind_exn m f = (case m of Inl e \<Rightarrow> Inl e | Inr x \<Rightarrow> f x)"

definition statistics_mean :: "real list \<Rightarrow> exn + real" where
  "statistics_mean xs =
     (if xs = [] then Inl (Exn StatisticsError ''mean requires at least one data point'')
      else Inr (sum_list xs / real (length xs)))"

definition statistics_median :: "real list \<Rightarrow> exn + real" where
  "statistics_median xs =
     (let data = sort xs; n = length data
      in if n = 0 then Inl (Exn StatisticsError ''no median for empty data'')
         else if n mod 2 = 1 then Inr (data ! (n div 2))
         else Inr ((data ! (n div 2 - 1) + data ! (n div 2)) / 2))"

definition statistics_stdev :: "real list \<Rightarrow> exn + real" where
  "statistics_stdev xs =
     (if length xs < 2
      then Inl (Exn StatisticsError ''variance requires at least two data points'')
      else (let m = sum_list xs / real (length xs)
            in Inr (sqrt (sum_list (map (\<lambda>x. (x - m)\<^sup>2) xs) / real (length xs - 1)))))"

definition py_min :: "real list \<Rightarrow> exn + real" where
  "py_min xs =
     (case xs of
        [] \<Rightarrow> Inl (Exn ValueError ''min() arg is an empty sequence'')
      | x # rest \<Rightarrow> Inr (fold min rest x))"

definition py_max :: "real list \<Rightarrow> exn + real" where
  "py_max xs =
     (case xs of
        [] \<Rightarrow> Inl (Exn ValueError ''max() arg is an empty sequence'')
      | x # rest \<Rightarrow> Inr (fold max rest x))"

record trend_summary =
  ts_count :: nat
  average :: real
  median :: real
  ts_min :: real
  ts_max :: real
  std_dev :: real
  trend_direction :: string
  trend_magnitude :: real

text \<open>The \<^verbatim>\<open>try\<close> block of \<^verbatim>\<open>_calculate_trend\<close>.\<close>

definition trend_body :: "real list \<Rightarrow> exn + trend_summary" where
  "trend_body values =
     bind_exn (statistics_mean values) (\<lambda>avg.
     bind_exn (statistics_median values) (\<lambda>med.
     bind_exn (py_min values) (\<lambda>min_val.
     bind_exn (py_max values) (\<lambda>max_val.
     bind_exn (if length values > 1 then statistics_stdev values else Inr 0) (\<lambda>sd.
     let mid_point = length values div 2 in
     bind_exn (if mid_point > 0 then statistics_mean (take mid_point values) else Inr avg)
       (\<lambda>first_half_avg.
     bind_exn (if mid_point < length values then statistics_mean (drop mid_point values)
               else Inr avg)
       (\<lambda>second_half_avg.
     let magnitude = \<bar>second_half_avg - first_half_avg\<bar>;
         direction =
           (if second_half_avg > first_half_avg + sd * 0.5 then ''increasing''
            else if second_half_avg < first_half_avg - sd * 0.5 then ''decreasing''
            else ''stable'')
     in Inr \<lparr>ts_count = length values,
             average = py_round avg 2,
             median = py_round med 2,
             ts_min = py_round min_val 2,
             ts_max = py_round max_val 2,
             std_dev = py_round sd 2,
             trend_direction = direction,
             trend_magnitude = py_round magnitude 2\<rparr>)))))))"

text \<open>\<^verbatim>\<open>_calculate_trend\<close>: the \<open>Inl\<close> result is the text under the \<^verbatim>\<open>'error'\<close> key.\<close>

definition calculate_trend :: "real list \<Rightarrow> string + trend_summary" where
  "calculate_trend values =
     (if values = [] then Inl ''No values provided''
      else (case trend_body values of
              Inl e \<Rightarrow> Inl (''Trend calculation failed: '' @ str_exn e)
            | Inr s \<Rightarrow> Inr s))"








section \<open>calculate\_weather\_trends\<close>

text \<open>
  A row of the trend query holds the two payload columns. The loop decodes both, then
  appends to the three series; a \<open>JSONDecodeError\<close> skips the row, any other exception
  leaves the loop.
\<close>

record trend_row =
  row_weather :: "weather_doc column"
  row_aqi :: "aq_doc column"

record series =
  temperatures :: "real list"
  humidity_values :: "real list"
  aqi_values :: "real list"

text \<open>\<^verbatim>\<open>[obs.get('AQI') for obs in aqi_data['observations'] if obs.get('AQI')]\<close>\<close>

definition aqi_list_of :: "aq_obs list \<Rightarrow> real list" where
  "aqi_list_of observations =
     List.map_filter
       (\<lambda>obs. case AQI obs of None \<Rightarrow> None | Some a \<Rightarrow> if a \<noteq> 0 then Some a else None)
       observations"

definition extract_aqi :: "aq_doc \<Rightarrow> series \<Rightarrow> exn + series" where
  "extract_aqi a s =
     (if aq_nonempty a \<and> aq_observations a \<noteq> None then
        (let aqi_list = aqi_list_of (case aq_observations a of None \<Rightarrow> [] | Some os \<Rightarrow> os)
         in if aqi_list \<noteq> [] then
              bind_exn (py_max aqi_list) (\<lambda>m. Inr (s\<lparr>aqi_values := aqi_values s @ [m]\<rparr>))
            else Inr s)
      else Inr s)"

definition extract_temperature :: "weather_doc \<Rightarrow> series \<Rightarrow> series" where
  "extract_temperature wd s =
     (case (case wd_main wd of None \<Rightarrow> None | Some m \<Rightarrow> temp m) of
        None \<Rightarrow> s
      | Some t \<Rightarrow> s\<lparr>temperatures := temperatures s @ [t]\<rparr>)"

definition extract_humidity :: "weather_doc \<Rightarrow> series \<Rightarrow> series" where
  "extract_humidity wd s =
     (case (case wd_main wd of None \<Rightarrow> None | Some m \<Rightarrow> humidity m) of
        None \<Rightarrow> s
      | Some h \<Rightarrow> s\<lparr>humidity_values := humidity_values s @ [h]\<rparr>)"

definition trend_row_step :: "trend_row \<Rightarrow> series \<Rightarrow> exn + series" where
  "trend_row_step row s =
     (case loads_weather (Some (row_weather row)) of
        DecodeError m \<Rightarrow> Inr s
      | OtherError m \<Rightarrow> Inl (Exn TypeError m)
      | Loaded wd \<Rightarrow>
          (case loads_aqi (Some (row_aqi row)) of
             DecodeError m \<Rightarrow> Inr s
           | OtherError m \<Rightarrow> Inl (Exn TypeError m)
           | Loaded a \<Rightarrow> extract_aqi a (extract_humidity wd (extract_temperature wd s))))"

fun trend_rows_loop :: "trend_row list \<Rightarrow> series \<Rightarrow> exn + series" where
  "trend_rows_loop [] s = Inr s"
| "trend_rows_loop (row # rows) s =
     (case trend_row_step row s of
        Inl e \<Rightarrow> Inl e
      | Inr s' \<Rightarrow> trend_rows_loop rows s')"

record trends =
  total_observations :: nat
  temperature_trend :: "string + trend_summary"
  humidity_trend :: "string + trend_summary"
  aqi_trend :: "string + trend_summary"

text \<open>
  The rows of the query (for one city, inside the window, by observation time) are the
  input, \<open>Inl\<close> for a failed query; \<open>no_data\<close> is the text of the "No data found" message.
  The \<^verbatim>\<open>city\<close>, \<^verbatim>\<open>period_days\<close> and \<^verbatim>\<open>calculated_at\<close> entries of the result are left out.
\<close>

definition calculate_weather_trends :: "string \<Rightarrow> exn + trend_row list \<Rightarrow> string + trends" where
  "calculate_weather_trends no_data query =
     (case query of
        Inl e \<Rightarrow> Inl (str_exn e)
      | Inr rows \<Rightarrow>
          if rows = [] then Inl no_data
          else (case trend_rows_loop rows
                       \<lparr>temperatures = [], humidity_values = [], aqi_values = []\<rparr> of
                  Inl e \<Rightarrow> Inl (str_exn e)
                | Inr s \<Rightarrow>
                    Inr \<lparr>total_observations = length rows,
                         temperature_trend = calculate_trend (temperatures s),
                         humidity_trend = calculate_trend (humidity_values s),
                         aqi_trend = calculate_trend (aqi_values s)\<rparr>))"

text \<open>The observation list of a row, empty when the row has none.\<close>

definition row_observations :: "trend_row \<Rightarrow> aq_obs list" where
  "row_observations row =
     (case row_aqi row of
        Doc a \<Rightarrow> (case aq_observations a of None \<Rightarrow> [] | Some os \<Rightarrow> os)
      | _ \<Rightarrow> [])"




section \<open>WeatherClient: fetching by city\<close>

text \<open>
  The error envelope of the \<^verbatim>\<open>except Exception\<close> handler: cause, capture time and the
  query that failed.
\<close>

definition error_envelope :: "world \<Rightarrow> string \<Rightarrow> string \<Rightarrow> pydict \<times> world" where
  "error_envelope w cause query =
     (let (t, w') = utcnow w
      in ([(''error'', JStr cause), (''api_timestamp'', JStr (fmt_time w t)),
           (''query'', JStr query)], w'))"

definition city_query :: "string \<Rightarrow> string option \<Rightarrow> string" where
  "city_query city country_code =
     (case country_code of
        None \<Rightarrow> city
      | Some cc \<Rightarrow> if cc \<noteq> [] then city @ '','' @ cc else city)"

definition weather_url :: "weather_client \<Rightarrow> string" where
  "weather_url self = base_url self @ ''/weather''"

definition weather_params :: "weather_client \<Rightarrow> string \<Rightarrow> pydict" where
  "weather_params self query =
     [(''q'', JStr query), (''appid'', JStr (api_key self)), (''units'', JStr ''metric'')]"

text \<open>
  \<^verbatim>\<open>get_current_weather_by_city\<close>. Everything raised inside the \<^verbatim>\<open>try\<close> block, by the
  request or by reading \<^verbatim>\<open>cod\<close> and \<^verbatim>\<open>message\<close> off the decoded body, ends in the
  envelope.
\<close>

definition get_current_weather_by_city ::
  "weather_client \<Rightarrow> world \<Rightarrow> string \<Rightarrow> string option \<Rightarrow> pydict \<times> world" where
  "get_current_weather_by_city self w city country_code =
     (let query = city_query city country_code
      in case make_request w (weather_url self) (weather_params self query) 3 of
           (Inl e, w1) \<Rightarrow> error_envelope w1 (str_exn e) query
         | (Inr data, w1) \<Rightarrow>
             (case py_get data ''cod'' JNull of
                Inl e \<Rightarrow> error_envelope w1 (str_exn e) query
              | Inr cod \<Rightarrow>
                  if cod \<noteq> JNum 200 then
                    (case py_get data ''message'' (JStr ''Unknown API error'') of
                       Inl e \<Rightarrow> error_envelope w1 (str_exn e) query
                     | Inr error_message \<Rightarrow>
                         error_envelope w1
                           (''OpenWeatherMap API error: '' @ fmt_json w1 error_message) query)
                  else
                    (case data of
                       JObj d \<Rightarrow>
                         (let (t, w2) = utcnow w1
                          in (dict_set ''query'' (JStr query)
                                (dict_set ''api_timestamp'' (JStr (fmt_time w1 t)) d), w2))
                     | _ \<Rightarrow>
                         error_envelope w1 ''object does not support item assignment''
                           query)))"

text \<open>\<^verbatim>\<open>str.split(',')\<close> and \<^verbatim>\<open>str.strip()\<close> (ASCII whitespace).\<close>

fun split_on :: "char \<Rightarrow> string \<Rightarrow> string list" where
  "split_on c [] = [] # []"
| "split_on c (x # xs) =
     (if x = c then [] # split_on c xs
      else (case split_on c xs of
              [] \<Rightarrow> [x] # []
            | p # ps \<Rightarrow> (x # p) # ps))"

definition is_space :: "char \<Rightarrow> bool" where
  "is_space c =
     (c = CHR 0x20 \<or> c = CHR 0x09 \<or> c = CHR 0x0A \<or> c = CHR 0x0B \<or> c = CHR 0x0C
      \<or> c = CHR 0x0D \<or> c = CHR 0x1C \<or> c = CHR 0x1D \<or> c = CHR 0x1E \<or> c = CHR 0x1F)"

definition strip :: "string \<Rightarrow> string" where
  "strip s = rev (dropWhile is_space (rev (dropWhile is_space s)))"

definition first_part :: "string \<Rightarrow> string" where
  "first_part s = (case split_on (CHR '','') s of [] \<Rightarrow> [] | p # ps \<Rightarrow> p)"

definition parse_city_country :: "string \<Rightarrow> string \<times> string option" where
  "parse_city_country city_input =
     (let parts = split_on (CHR '','') city_input
      in (strip (first_part city_input),
          if length parts > 1 then Some (strip (parts ! 1)) else None))"

text \<open>
  \<^verbatim>\<open>get_weather_for_cities\<close>: the result dict is keyed by the configured city string. The
  \<^verbatim>\<open>except\<close> clause of its loop body is not reached, since the fetch does not raise.
\<close>

fun get_weather_for_cities_loop ::
  "weather_client \<Rightarrow> world \<Rightarrow> string list \<Rightarrow> (string \<times> pydict) list
     \<Rightarrow> (string \<times> pydict) list \<times> world" where
  "get_weather_for_cities_loop self w [] results = (results, w)"
| "get_weather_for_cities_loop self w (city_input # rest) results =
     (case parse_city_country city_input of
        (city, country) \<Rightarrow>
          (case get_current_weather_by_city self w city country of
             (weather, w1) \<Rightarrow>
               get_weather_for_cities_loop self w1 rest (dict_set city_input weather results)))"

definition get_weather_for_cities ::
  "weather_client \<Rightarrow> world \<Rightarrow> string list \<Rightarrow> (string \<times> pydict) list \<times> world" where
  "get_weather_for_cities self w cs = get_weather_for_cities_loop self w cs []"

section \<open>WeatherClient: extracting key metrics\<close>


definition timestamp_in_range :: "real \<Rightarrow> bool" where
  "timestamp_in_range r = (- 62135596800 \<le> r \<and> r < 253402300800)"

definition utcfromtimestamp :: "json \<Rightarrow> exn + real" where
  "utcfromtimestamp x =
     (case x of
        JNum r \<Rightarrow> if timestamp_in_range r then Inr r
                  else Inl (Exn OverflowError ''timestamp out of range'')
      | JBool b \<Rightarrow> Inr (if b then 1 else 0)
      | _ \<Rightarrow> Inl (Exn TypeError ''an integer is required''))"



definition test_client :: weather_client where
  "test_client = \<lparr>api_key = ''k'', base_url = ''https://api.openweathermap.org/data/2.5''\<rparr>"


section \<open>AirQualityClient\<close>

text \<open>An empty \<open>aq_api_key\<close> stands for a key that is not configured (\<^verbatim>\<open>None\<close> or \<^verbatim>\<open>''\<close>).\<close>

record aq_client =
  aq_api_key :: string
  aq_base_url :: string

definition coordinates_of :: "json \<Rightarrow> json \<Rightarrow> json" where
  "coordinates_of latitude longitude = JObj [(''lat'', latitude), (''lon'', longitude)]"

definition aqi_error :: "world \<Rightarrow> string \<Rightarrow> json \<Rightarrow> json \<Rightarrow> pydict \<times> world" where
  "aqi_error w cause latitude longitude =
     (let (t, w') = utcnow w
      in ([(''error'', JStr cause), (''api_timestamp'', JStr (fmt_time w t)),
           (''coordinates'', coordinates_of latitude longitude)], w'))"

text \<open>The two handlers of \<^verbatim>\<open>get_current_aqi_by_coordinates\<close>.\<close>

definition aqi_handlers :: "world \<Rightarrow> exn \<Rightarrow> json \<Rightarrow> json \<Rightarrow> pydict \<times> world" where
  "aqi_handlers w e latitude longitude =
     (if is_RequestException e then aqi_error w (str_exn e) latitude longitude
      else aqi_error w (''Unexpected error: '' @ str_exn e) latitude longitude)"

definition aqi_url :: "aq_client \<Rightarrow> string" where
  "aqi_url self = aq_base_url self @ ''/observation/latLong/current''"

definition aqi_params :: "aq_client \<Rightarrow> json \<Rightarrow> json \<Rightarrow> pydict" where
  "aqi_params self latitude longitude =
     [(''format'', JStr ''application/json''), (''latitude'', latitude),
      (''longitude'', longitude), (''distance'', JNum 50), (''API_KEY'', JStr (aq_api_key self))]"

text \<open>
  One request, no retry. A decoded list is wrapped; a decoded dict gets the metadata
  keys; on any other value the item assignment raises after the clock has been read.
\<close>

definition get_current_aqi_by_coordinates ::
  "aq_client \<Rightarrow> world \<Rightarrow> json \<Rightarrow> json \<Rightarrow> pydict \<times> world" where
  "get_current_aqi_by_coordinates self w latitude longitude =
     (if aq_api_key self = [] then
        aqi_error w ''AirNow API key not configured'' latitude longitude
      else
        (case requests_get w (aqi_url self) (aqi_params self latitude longitude) of
           (Inl e, w1) \<Rightarrow> aqi_handlers w1 e latitude longitude
         | (Inr r, w1) \<Rightarrow>
             (case raise_for_status r of
                Some e \<Rightarrow> aqi_handlers w1 e latitude longitude
              | None \<Rightarrow>
                  (case body r of
                     Inl e \<Rightarrow> aqi_handlers w1 e latitude longitude
                   | Inr data \<Rightarrow>
                       (case utcnow w1 of
                          (t, w2) \<Rightarrow>
                            (case data of
                               JArr xs \<Rightarrow>
                                 ([(''observations'', JArr xs),
                                   (''api_timestamp'', JStr (fmt_time w1 t)),
                                   (''coordinates'', coordinates_of latitude longitude),
                                   (''total_observations'', JNum (real (length xs)))], w2)
                             | JObj d \<Rightarrow>
                                 (dict_set ''coordinates'' (coordinates_of latitude longitude)
                                    (dict_set ''api_timestamp'' (JStr (fmt_time w1 t)) d), w2)
                             | _ \<Rightarrow>
                                 aqi_handlers w2
                                   (Exn TypeError ''object does not support item assignment'')
                                   latitude longitude))))))"

definition aqi_plain_error :: "world \<Rightarrow> string \<Rightarrow> pydict \<times> world" where
  "aqi_plain_error w cause =
     (let (t, w') = utcnow w
      in ([(''error'', JStr cause), (''api_timestamp'', JStr (fmt_time w t))], w'))"

definition get_aqi_for_weather_data :: "aq_client \<Rightarrow> world \<Rightarrow> pydict \<Rightarrow> pydict \<times> world" where
  "get_aqi_for_weather_data self w weather =
     (if has_key ''error'' weather then
        aqi_plain_error w ''Cannot fetch AQI: Weather data contains error''
      else
        (let coord = dict_get weather ''coord'' (JObj [])
         in case py_get coord ''lat'' JNull of
              Inl e \<Rightarrow> aqi_plain_error w (''Failed to process weather data: '' @ str_exn e)
            | Inr lat \<Rightarrow>
                (case py_get coord ''lon'' JNull of
                   Inl e \<Rightarrow>
                     aqi_plain_error w (''Failed to process weather data: '' @ str_exn e)
                 | Inr lon \<Rightarrow>
                     if lat = JNull \<or> lon = JNull then
                       aqi_plain_error w ''Weather data missing coordinates''
                     else get_current_aqi_by_coordinates self w lat lon)))"

section \<open>WeatherETL\<close>

record weather_etl =
  weather_client_of :: weather_client
  air_quality_client_of :: aq_client
  cities :: "string list"

text \<open>
  The body of the loop of \<^verbatim>\<open>fetch_air_quality_data\<close> for one entry of the weather dict,
  and the loop over \<^verbatim>\<open>weather_data.items()\<close>.
\<close>

definition fetch_aqi_entry :: "aq_client \<Rightarrow> world \<Rightarrow> pydict \<Rightarrow> pydict \<times> world" where
  "fetch_aqi_entry ac w weather =
     (if \<not> has_key ''error'' weather then get_aqi_for_weather_data ac w weather
      else aqi_plain_error w ''Weather data unavailable'')"

fun fetch_air_quality_loop ::
  "aq_client \<Rightarrow> world \<Rightarrow> (string \<times> pydict) list \<Rightarrow> (string \<times> pydict) list
     \<Rightarrow> (string \<times> pydict) list \<times> world" where
  "fetch_air_quality_loop ac w [] aqi_data = (aqi_data, w)"
| "fetch_air_quality_loop ac w ((city, weather) # rest) aqi_data =
     (case fetch_aqi_entry ac w weather of
        (aqi, w1) \<Rightarrow> fetch_air_quality_loop ac w1 rest (dict_set city aqi aqi_data))"

definition fetch_air_quality_data ::
  "aq_client \<Rightarrow> world \<Rightarrow> (string \<times> pydict) list \<Rightarrow> (string \<times> pydict) list \<times> world" where
  "fetch_air_quality_data ac w weather_dict = fetch_air_quality_loop ac w weather_dict []"

text \<open>\<^verbatim>\<open>prepare_observation_record\<close>: the record dict, from the values read off the payload.\<close>

definition make_record ::
  "string \<Rightarrow> json \<Rightarrow> json \<Rightarrow> json \<Rightarrow> json \<Rightarrow> real \<Rightarrow> pydict \<Rightarrow> pydict \<Rightarrow> observation" where
  "make_record city city_name country lat lon observation_time weather aqi =
     \<lparr>ob_city = (if truthy city_name then city_name else JStr (first_part city)),
      ob_country = country,
      ob_latitude = lat,
      ob_longitude = lon,
      ob_observation_time = observation_time,
      ob_weather_data = weather,
      ob_air_quality_data = (if aqi \<noteq> [] then Some aqi else None)\<rparr>"

definition prepare_observation_record ::
  "world \<Rightarrow> string \<Rightarrow> pydict \<Rightarrow> pydict \<Rightarrow> (exn + observation) \<times> world" where
  "prepare_observation_record w city weather aqi =
     (if \<not> has_key ''error'' weather then
        (let coord = dict_get weather ''coord'' (JObj [])
         in (bind_exn (py_get coord ''lat'' JNull) (\<lambda>lat.
             bind_exn (py_get coord ''lon'' JNull) (\<lambda>lon.
             let city_name = dict_get weather ''name'' (JStr (first_part city)) in
             bind_exn (py_get (dict_get weather ''sys'' (JObj [])) ''country'' JNull) (\<lambda>country.
             bind_exn (utcfromtimestamp (dict_get weather ''dt'' (JNum 0))) (\<lambda>observation_time.
             Inr (make_record city city_name country lat lon observation_time weather aqi))))),
             w))
      else
        (case utcnow w of
           (observation_time, w1) \<Rightarrow>
             (Inr (make_record city JNull JNull JNull JNull observation_time weather aqi), w1)))"

section \<open>The upsert\<close>

text \<open>
  \<^verbatim>\<open>INSERT ... ON CONFLICT (city, observation_time) DO UPDATE SET ...\<close> as PostgreSQL executes
  it. The conflict target must be backed by a unique index over exactly these columns;
  without one the statement is rejected (SQLSTATE 42P10). With one, a row of the same key
  has its mutable columns overwritten and \<^verbatim>\<open>updated_at\<close> set to the statement's
  \<^verbatim>\<open>CURRENT_TIMESTAMP\<close>, and otherwise a new row is appended. Column length and precision
  limits are not modelled.
\<close>

definition same_key :: "observation \<Rightarrow> db_row \<Rightarrow> bool" where
  "same_key ob r =
     (ob_city r = ob_city ob \<and> ob_observation_time r = ob_observation_time ob)"

definition do_update :: "real \<Rightarrow> observation \<Rightarrow> db_row \<Rightarrow> db_row" where
  "do_update now ob r =
     r\<lparr>ob_country := ob_country ob,
       ob_latitude := ob_latitude ob,
       ob_longitude := ob_longitude ob,
       ob_weather_data := ob_weather_data ob,
       ob_air_quality_data := ob_air_quality_data ob,
       updated_at := now\<rparr>"

definition new_row :: "real \<Rightarrow> nat \<Rightarrow> observation \<Rightarrow> db_row" where
  "new_row now i ob =
     \<lparr>ob_city = ob_city ob, ob_country = ob_country ob, ob_latitude = ob_latitude ob,
      ob_longitude = ob_longitude ob, ob_observation_time = ob_observation_time ob,
      ob_weather_data = ob_weather_data ob, ob_air_quality_data = ob_air_quality_data ob,
      row_id = i, created_at = now, updated_at = now\<rparr>"

definition insert_on_conflict ::
  "real \<Rightarrow> observation \<Rightarrow> db_row list \<times> nat \<Rightarrow> db_row list \<times> nat" where
  "insert_on_conflict now ob st =
     (case st of
        (table, next_id) \<Rightarrow>
          if filter (same_key ob) table \<noteq> []
          then (map (\<lambda>r. if same_key ob r then do_update now ob r else r) table, next_id + 1)
          else (table @ [new_row now next_id ob], next_id + 1))"

text \<open>\<^verbatim>\<open>cursor.executemany\<close>: one statement per observation, in order, in one transaction.\<close>

fun executemany ::
  "bool \<Rightarrow> real \<Rightarrow> observation list \<Rightarrow> db_row list \<times> nat \<Rightarrow> exn + db_row list \<times> nat" where
  "executemany unique_index now [] st = Inr st"
| "executemany unique_index now (ob # obs) st =
     (if \<not> unique_index then
        Inl (Exn DatabaseError
          ''there is no unique or exclusion constraint matching the ON CONFLICT specification'')
      else executemany unique_index now obs (insert_on_conflict now ob st))"

text \<open>
  \<^verbatim>\<open>load_observations_to_db\<close>: an exception rolls the transaction back and is re-raised;
  the returned count is the accumulated \<^verbatim>\<open>rowcount\<close>, one per statement.
\<close>

definition load_observations_to_db ::
  "world \<Rightarrow> observation list \<Rightarrow> (exn + nat) \<times> world" where
  "load_observations_to_db w observations =
     (let w0 = w\<lparr>load_calls := load_calls w @ [observations]\<rparr>
      in if observations = [] then (Inr 0, w0)
         else (case db_connect_error w0 of
                 Some e \<Rightarrow> (Inl e, w0)
               | None \<Rightarrow>
                   (case utcnow w0 of
                      (now, w1) \<Rightarrow>
                        (case executemany (db_unique_city_time w1) now observations
                                (db_table w1, db_next_id w1) of
                           Inl e \<Rightarrow> (Inl e, w1)
                         | Inr (table', next_id') \<Rightarrow>
                             (Inr (length observations),
                              w1\<lparr>db_table := table', db_next_id := next_id'\<rparr>)))))"

section \<open>run\_etl\<close>

fun prepare_observations ::
  "world \<Rightarrow> string list \<Rightarrow> (string \<times> pydict) list \<Rightarrow> (string \<times> pydict) list
     \<Rightarrow> observation list \<Rightarrow> (exn + observation list) \<times> world" where
  "prepare_observations w [] weather_dict aqi_dict observations = (Inr observations, w)"
| "prepare_observations w (city # rest) weather_dict aqi_dict observations =
     (case prepare_observation_record w city (dict_get weather_dict city [])
             (dict_get aqi_dict city []) of
        (Inl e, w1) \<Rightarrow> (Inl e, w1)
      | (Inr record, w1) \<Rightarrow>
          prepare_observations w1 rest weather_dict aqi_dict (observations @ [record]))"

text \<open>\<^verbatim>\<open>len([v for v in d.values() if ...])\<close> with and without the error marker.\<close>

definition count_errors :: "(string \<times> pydict) list \<Rightarrow> nat" where
  "count_errors d = length (filter (\<lambda>kv. has_key ''error'' (snd kv)) d)"

definition count_successes :: "(string \<times> pydict) list \<Rightarrow> nat" where
  "count_successes d = length (filter (\<lambda>kv. \<not> has_key ''error'' (snd kv)) d)"

text \<open>The \<^verbatim>\<open>try\<close> block of \<^verbatim>\<open>run_etl\<close>, up to the summary of a successful run.\<close>

definition etl_try :: "weather_etl \<Rightarrow> world \<Rightarrow> real \<Rightarrow> (exn + pydict) \<times> world" where
  "etl_try self w start_time =
     (case get_weather_for_cities (weather_client_of self) w (cities self) of
        (weather_dict, w1) \<Rightarrow>
          (case fetch_air_quality_data (air_quality_client_of self) w1 weather_dict of
             (aqi_dict, w2) \<Rightarrow>
               (case prepare_observations w2 (cities self) weather_dict aqi_dict [] of
                  (Inl e, w3) \<Rightarrow> (Inl e, w3)
                | (Inr observations, w3) \<Rightarrow>
                    (case load_observations_to_db w3 observations of
                       (Inl e, w4) \<Rightarrow> (Inl e, w4)
                     | (Inr records_loaded, w4) \<Rightarrow>
                         (case utcnow w4 of
                            (end_time, w5) \<Rightarrow>
                              (Inr [(''start_time'', JStr (fmt_time w start_time)),
                                    (''end_time'', JStr (fmt_time w end_time)),
                                    (''duration_seconds'', JNum (end_time - start_time)),
                                    (''cities_processed'', JNum (real (length (cities self)))),
                                    (''records_loaded'', JNum (real records_loaded)),
                                    (''weather_successes'',
                                       JNum (real (count_successes weather_dict))),
                                    (''weather_errors'', JNum (real (count_errors weather_dict))),
                                    (''aqi_successes'', JNum (real (count_successes aqi_dict))),
                                    (''aqi_errors'', JNum (real (count_errors aqi_dict))),
                                    (''status'', JStr ''success'')], w5))))))"

definition run_etl :: "weather_etl \<Rightarrow> world \<Rightarrow> pydict \<times> world" where
  "run_etl self w =
     (case utcnow w of
        (start_time, w0) \<Rightarrow>
          (case etl_try self w0 start_time of
             (Inr summary, w') \<Rightarrow> (summary, w')
           | (Inl e, w') \<Rightarrow>
               (case utcnow w' of
                  (end_time, w'') \<Rightarrow>
                    ([(''start_time'', JStr (fmt_time w start_time)),
                      (''end_time'', JStr (fmt_time w end_time)),
                      (''duration_seconds'', JNum (end_time - start_time)),
                      (''status'', JStr ''error''),
                      (''error'', JStr (str_exn e))], w''))))"

text \<open>Concrete runs: the provider answers 404 to every request.\<close>

definition not_found :: "exn + response" where
  "not_found = Inr \<lparr>status_code = 404, http_error_text = ''404 Not Found'', body = Inr JNull\<rparr>"

definition test_etl :: "string list \<Rightarrow> weather_etl" where
  "test_etl cs =
     \<lparr>weather_client_of = test_client,
      air_quality_client_of = \<lparr>aq_api_key = ''a'', aq_base_url = ''https://www.airnowapi.org/aq''\<rparr>,
      cities = cs\<rparr>"

definition init_db_world :: world where
  "init_db_world = test_world (scripted_net [not_found, not_found])"

definition unique_index_world :: world where
  "unique_index_world = init_db_world\<lparr>db_unique_city_time := True\<rparr>"

definition db_down_world :: world where
  "db_down_world =
     unique_index_world\<lparr>db_connect_error := Some (Exn DatabaseError ''could not connect to server'')\<rparr>"


text \<open>The natural key of a row, and a table that holds each key at most once.\<close>

definition row_key :: "db_row \<Rightarrow> json \<times> real" where
  "row_key r = (ob_city r, ob_observation_time r)"

definition keys_distinct :: "db_row list \<Rightarrow> bool" where
  "keys_distinct table = distinct (map row_key table)"

text \<open>Two writes of one key with different payloads.\<close>

definition ob_first :: observation where
  "ob_first =
     \<lparr>ob_city = JStr ''Paris'', ob_country = JStr ''FR'', ob_latitude = JNum 49,
      ob_longitude = JNum 2, ob_observation_time = 1700000000,
      ob_weather_data = [(''main'', JObj [(''temp'', JNum 20)])],
      ob_air_quality_data = None\<rparr>"

definition ob_second :: observation where
  "ob_second =
     \<lparr>ob_city = JStr ''Paris'', ob_country = JStr ''XX'', ob_latitude = JNum 48,
      ob_longitude = JNum 3, ob_observation_time = 1700000000,
      ob_weather_data = [(''main'', JObj [(''temp'', JNum 25)])],
      ob_air_quality_data = Some [(''observations'', JArr [])]\<rparr>"

section \<open>Retry budget of the weather client\<close>

lemma requests_get_log:
  "requests_get w u ps = (r, w1) \<Longrightarrow>
     requests_log w1 = requests_log w @ [\<lparr>url = u, params = ps\<rparr>] \<and> net w1 = net w"
  by (auto simp: requests_get_def Let_def)

lemma time_sleep_fields:
  "requests_log (time_sleep n w) = requests_log w" "net (time_sleep n w) = net w"
  by (simp_all add: time_sleep_def)

lemma make_request_loop_exhaust:
  assumes "\<And>i. i < length fs \<Longrightarrow>
             net w0 (L @ replicate (Suc i) \<lparr>url = u, params = ps\<rparr>) = retryable_outcome (fs ! i)"
  shows "k < length fs \<Longrightarrow> net w = net w0 \<Longrightarrow>
         requests_log w = L @ replicate k \<lparr>url = u, params = ps\<rparr> \<Longrightarrow>
         (\<exists>w'. make_request_loop w u ps (length fs) [k..<length fs]
                  = (Inl (terminal_error (last fs)), w')
             \<and> requests_log w' = L @ replicate (length fs) \<lparr>url = u, params = ps\<rparr>)"
proof (induction "length fs - k" arbitrary: k w)
  case 0
  then show ?case by simp
next
  case (Suc d)
  let ?r = "\<lparr>url = u, params = ps\<rparr>"
  obtain res w1 where g: "requests_get w u ps = (res, w1)"
    by (cases "requests_get w u ps")
  have lg: "requests_log w1 = L @ replicate (Suc k) ?r" and nt: "net w1 = net w0"
    using requests_get_log[OF g] Suc.prems by (simp_all add: replicate_append_same)
  have res: "res = retryable_outcome (fs ! k)"
    using g Suc.prems assms[of k]
    by (auto simp: requests_get_def Let_def replicate_append_same)
  have upt: "[k..<length fs] = k # [Suc k..<length fs]"
    using Suc.prems by (simp add: upt_conv_Cons)
  show ?case
  proof (cases "Suc k = length fs")
    case True
    then have lst: "last fs = fs ! k"
      using Suc.prems by (metis diff_Suc_1 last_conv_nth length_0_conv not_less0)
    show ?thesis using True lst g res lg
      by (cases "fs ! k")
        (auto simp: upt except_clauses_def raise_for_status_def time_sleep_fields)
  next
    case False
    then have lt: "Suc k < length fs" using Suc.prems by simp
    have d: "d = length fs - Suc k" using Suc.hyps by simp
    have IH1: "\<exists>w'. make_request_loop w1 u ps (length fs) [Suc k..<length fs]
                     = (Inl (terminal_error (last fs)), w')
                 \<and> requests_log w' = L @ replicate (length fs) ?r"
      using Suc.hyps(1)[OF d lt nt lg] .
    have IH2: "\<exists>w'. make_request_loop (time_sleep (2 ^ k) w1) u ps (length fs)
                       [Suc k..<length fs] = (Inl (terminal_error (last fs)), w')
                 \<and> requests_log w' = L @ replicate (length fs) ?r"
      using Suc.hyps(1)[OF d lt, of "time_sleep (2 ^ k) w1"] nt lg
      by (simp add: time_sleep_fields)
    have ne: "int k \<noteq> int (length fs) - 1" using False by linarith
    show ?thesis using IH1 IH2 g res ne
      by (cases "fs ! k") (auto simp: upt except_clauses_def raise_for_status_def)
  qed
qed

text \<open>
  C3 (as amended). When every attempt of the budget fails in a retryable way (timeout,
  rate limit, 5xx), the client makes exactly as many requests as the budget allows and
  then fails for good. The terminal error is "Max retries exceeded" when the last attempt
  was rate-limited; after a last attempt that timed out or got a 5xx answer it is that
  attempt's own exception, re-raised by the guard \<^verbatim>\<open>if attempt == retries - 1: raise\<close>.
\<close>

theorem make_request_budget_exhausted:
  assumes "fs \<noteq> []"
    and "\<And>i. i < length fs \<Longrightarrow>
           net w (requests_log w @ replicate (Suc i) \<lparr>url = u, params = ps\<rparr>)
             = retryable_outcome (fs ! i)"
  shows "\<exists>w'. make_request w u ps (length fs) = (Inl (terminal_error (last fs)), w')
           \<and> requests_log w'
               = requests_log w @ replicate (length fs) \<lparr>url = u, params = ps\<rparr>"
proof -
  have "0 < length fs" using assms(1) by simp
  from make_request_loop_exhaust[of fs w "requests_log w" u ps 0 w, OF assms(2) this]
  show ?thesis by (simp add: make_request_def)
qed

theorem make_request_budget_exhausted_witness:
  "\<exists>w'. make_request (test_world (scripted_net (map retryable_outcome timeout_server_limit)))
            ''u'' [] 3
          = (Inl (Exn RequestException ''Max retries exceeded''), w')
        \<and> length (requests_log w') = 3"
proof -
  let ?w = "test_world (scripted_net (map retryable_outcome timeout_server_limit))"
  have ne: "timeout_server_limit \<noteq> []" by (simp add: timeout_server_limit_def)
  have sc: "\<And>i. i < length timeout_server_limit \<Longrightarrow>
      net ?w (requests_log ?w @ replicate (Suc i) \<lparr>url = ''u'', params = []\<rparr>)
        = retryable_outcome (timeout_server_limit ! i)"
    by (simp add: test_world_def scripted_net_def)
  have len: "length timeout_server_limit = 3"
    by (simp add: timeout_server_limit_def)
  have lst: "terminal_error (last timeout_server_limit)
               = Exn RequestException ''Max retries exceeded''"
    by (simp add: timeout_server_limit_def)
  from make_request_budget_exhausted[of timeout_server_limit ?w "''u''" "[]", OF ne sc]
  obtain w' where
    r: "make_request ?w ''u'' [] (length timeout_server_limit)
          = (Inl (terminal_error (last timeout_server_limit)), w')"
    and l: "requests_log w' = requests_log ?w
          @ replicate (length timeout_server_limit) \<lparr>url = ''u'', params = []\<rparr>"
    by blast
  have "length (requests_log w') = 3"
    using l by (simp add: len test_world_def)
  with r show ?thesis unfolding len lst by blast
qed

text \<open>
  C3 as stated fails: three timeouts in a row use up the budget of 3, and the caller
  gets the timeout of the last attempt, not "Max retries exceeded".
\<close>

theorem make_request_three_timeouts:
  "fst (make_request (test_world (scripted_net three_timeouts)) ''u'' [] 3)
     = Inl (Exn Timeout ''Read timed out'')
   \<and> fst (make_request (test_world (scripted_net three_timeouts)) ''u'' [] 3)
     \<noteq> Inl (Exn RequestException ''Max retries exceeded'')
   \<and> length (requests_log (snd (make_request (test_world (scripted_net three_timeouts)) ''u'' [] 3))) = 3"
  by (simp add: make_request_def upt_conv_Cons test_world_def scripted_net_def
      three_timeouts_def requests_get_def except_clauses_def Let_def)

section \<open>Validation and the quality score\<close>

lemmas validate_defs =
  validate_weather_data_def loads_weather_def loads_aqi_def check_aqi_def check_weather_def
  check_humidity_def check_temperature_def check_required_def has_field_def
  weather_with_humidity_def empty_aq_doc_def aq_nonempty_def add_issue_def mark_invalid_def



text \<open>
  One half of "valid iff no issue" holds for every record: a result marked invalid
  always lists an issue, so a record without issues is valid.
\<close>

lemma flagged_add_issue: "flagged (add_issue s v)" "flagged (mark_invalid (add_issue s v))"
  by (simp_all add: flagged_def add_issue_def mark_invalid_def)

lemma flagged_fold:
  "(\<And>x v. flagged v \<Longrightarrow> flagged (f x v)) \<Longrightarrow> flagged v \<Longrightarrow> flagged (fold f xs v)"
  by (induction xs arbitrary: v) simp_all

lemma flagged_checks:
  assumes "flagged v"
  shows "flagged (check_required wd v)" "flagged (check_temperature fmt wd v)"
    "flagged (check_humidity fmt wd v)" "flagged (check_aqi fmt a v)"
  using assms
  by (auto simp: check_required_def check_temperature_def check_humidity_def check_aqi_def
      Let_def flagged_add_issue intro!: flagged_fold split: option.splits)

lemma validate_flagged: "flagged (validate_weather_data fmt record)"
proof -
  have v0: "flagged \<lparr>is_valid = True, issues = []\<rparr>" by (simp add: flagged_def)
  have "flagged (check_weather fmt wd \<lparr>is_valid = True, issues = []\<rparr>)" for wd
    using v0 by (auto simp: check_weather_def flagged_add_issue flagged_checks split: option.splits)
  then show ?thesis
    by (auto simp: validate_weather_data_def Let_def flagged_add_issue flagged_checks
        split: loaded.splits)
qed

lemma no_issues_valid:
  "issues (validate_weather_data fmt record) = [] \<Longrightarrow>
     is_valid (validate_weather_data fmt record)"
  using validate_flagged[of fmt "record"] by (simp add: flagged_def)

text \<open>
  C2, evaluated at the record of the claim. With humidity 150 and everything else in
  range the validator raises exactly one issue, of category "Humidity out of range", and
  still returns \<^verbatim>\<open>is_valid = True\<close>: the range checks append an issue without clearing
  the flag, unlike the missing-field and error-envelope branches beside them.
\<close>

theorem validate_humidity_150_stays_valid:
  "validate_weather_data fmt record_humidity_150
     = \<lparr>is_valid = True, issues = [''Humidity out of range: '' @ fmt 150 @ ''%'']\<rparr>
   \<and> map category (issues (validate_weather_data fmt record_humidity_150))
     = [''Humidity out of range'']"
  by (simp add: validate_defs record_humidity_150_def category_def)






section \<open>The half-mean trend test\<close>











section \<open>The AQI series\<close>



lemma fold_max_Max: "fold max rest (x::real) = Max (set (x # rest))"
  by (simp only: Max.set_eq_fold)

lemma extract_aqi_contrib:
  assumes "extract_aqi a s = Inr s'"
  shows "temperatures s' = temperatures s \<and> humidity_values s' = humidity_values s \<and>
     (\<exists>c. aqi_values s' = aqi_values s @ c \<and>
      (c = [] \<or> (aqi_list_of (case aq_observations a of None \<Rightarrow> [] | Some os \<Rightarrow> os) \<noteq> [] \<and>
         c = [Max (set (aqi_list_of (case aq_observations a of None \<Rightarrow> [] | Some os \<Rightarrow> os)))])))"
  using assms
  by (auto simp: extract_aqi_def Let_def bind_exn_def py_max_def fold_max_Max
      split: if_splits list.splits)

lemma step_contrib:
  assumes "trend_row_step row s = Inr s'"
  shows "\<exists>c. aqi_values s' = aqi_values s @ c \<and>
      (c = [] \<or> (aqi_list_of (row_observations row) \<noteq> [] \<and>
         c = [Max (set (aqi_list_of (row_observations row)))]))"
proof (cases "row_weather row")
  case NullCol then show ?thesis using assms by (simp add: trend_row_step_def loads_weather_def)
next
  case (Malformed m) then show ?thesis using assms by (simp add: trend_row_step_def loads_weather_def)
next
  case (Doc wd)
  show ?thesis
  proof (cases "row_aqi row")
    case NullCol
    then show ?thesis using assms Doc
      by (auto simp: trend_row_step_def loads_weather_def loads_aqi_def extract_aqi_def
          empty_aq_doc_def aq_nonempty_def extract_humidity_def extract_temperature_def split: option.splits)
  next
    case (Malformed m) then show ?thesis using assms Doc by (simp add: trend_row_step_def loads_weather_def loads_aqi_def)
  next
    case (Doc a)
    have e: "extract_aqi a (extract_humidity wd (extract_temperature wd s)) = Inr s'"
      using assms Doc \<open>row_weather row = Doc wd\<close>
      by (simp add: trend_row_step_def loads_weather_def loads_aqi_def)
    have av: "aqi_values (extract_humidity wd (extract_temperature wd s)) = aqi_values s"
      by (simp add: extract_humidity_def extract_temperature_def split: option.splits)
    have ro: "row_observations row = (case aq_observations a of None \<Rightarrow> [] | Some os \<Rightarrow> os)"
      using Doc by (simp add: row_observations_def)
    from extract_aqi_contrib[OF e] show ?thesis unfolding av ro by blast
  qed
qed

lemma trend_rows_loop_aqi_length:
  "trend_rows_loop rows s = Inr s' \<Longrightarrow>
     length (aqi_values s') \<le> length (aqi_values s) + length rows"
proof (induction rows arbitrary: s)
  case Nil
  then show ?case by simp
next
  case (Cons row rows)
  from Cons.prems obtain s1 where s1: "trend_row_step row s = Inr s1"
    and r: "trend_rows_loop rows s1 = Inr s'"
    by (auto split: sum.splits)
  from step_contrib[OF s1] have "length (aqi_values s1) \<le> length (aqi_values s) + 1"
    by auto
  with Cons.IH[OF r] show ?case by simp
qed




section \<open>Error envelopes of the weather client\<close>











section \<open>The run summary\<close>

lemma dict_set_keys: "fst ` set (dict_set k v d) = insert k (fst ` set d)"
  by (simp add: dict_set_def dom_update)

lemma dict_set_distinct: "distinct (map fst d) \<Longrightarrow> distinct (map fst (dict_set k v d))"
  by (simp add: dict_set_def distinct_update)

lemma weather_loop_keys:
  "get_weather_for_cities_loop self w cs results = (r, w') \<Longrightarrow> distinct (map fst results) \<Longrightarrow>
     distinct (map fst r) \<and> fst ` set r = fst ` set results \<union> set cs"
proof (induction cs arbitrary: w results)
  case Nil
  then show ?case by simp
next
  case (Cons c cs)
  obtain city country where p: "parse_city_country c = (city, country)"
    by (cases "parse_city_country c")
  obtain wd w1 where g: "get_current_weather_by_city self w city country = (wd, w1)"
    by (cases "get_current_weather_by_city self w city country")
  from Cons.prems(1) have l: "get_weather_for_cities_loop self w1 cs (dict_set c wd results) = (r, w')"
    by (simp add: p g)
  from Cons.IH[OF l dict_set_distinct[OF Cons.prems(2)]] show ?case
    by (auto simp: dict_set_keys)
qed

lemma weather_dict_keys:
  assumes "get_weather_for_cities self w cs = (r, w')"
  shows "distinct (map fst r)" "fst ` set r = set cs" "length r = card (set cs)"
proof -
  from weather_loop_keys[of self w cs "[]" r w'] assms
  show d: "distinct (map fst r)" and s: "fst ` set r = set cs"
    by (simp_all add: get_weather_for_cities_def)
  have "card (fst ` set r) = length r" using distinct_card[OF d] by simp
  then show "length r = card (set cs)" using s by simp
qed

lemma dict_set_fresh: "k \<notin> fst ` set d \<Longrightarrow> dict_set k v d = d @ [(k, v)]"
  by (induction d) (auto simp: dict_set_def)

lemma aqi_loop_keys:
  "fetch_air_quality_loop ac w items acc = (r, w') \<Longrightarrow> distinct (map fst items) \<Longrightarrow>
   set (map fst items) \<inter> fst ` set acc = {} \<Longrightarrow> map fst r = map fst acc @ map fst items"
proof (induction items arbitrary: w acc)
  case Nil
  then show ?case by simp
next
  case (Cons kv items)
  obtain city weather where kv: "kv = (city, weather)" by (cases kv)
  obtain aqi w1 where e: "fetch_aqi_entry ac w weather = (aqi, w1)"
    by (cases "fetch_aqi_entry ac w weather")
  have fresh: "city \<notin> fst ` set acc" using Cons.prems(3) kv by auto
  have ds: "dict_set city aqi acc = acc @ [(city, aqi)]" by (rule dict_set_fresh[OF fresh])
  from Cons.prems(1) have l: "fetch_air_quality_loop ac w1 items (acc @ [(city, aqi)]) = (r, w')"
    by (simp add: kv e ds)
  have "map fst r = map fst (acc @ [(city, aqi)]) @ map fst items"
    using Cons.prems(2,3) kv by (intro Cons.IH[OF l]) auto
  then show ?case by (simp add: kv)
qed

lemma aqi_dict_keys:
  assumes "fetch_air_quality_data ac w weather_dict = (r, w')" "distinct (map fst weather_dict)"
  shows "map fst r = map fst weather_dict"
  using aqi_loop_keys[of ac w weather_dict "[]" r w'] assms by (simp add: fetch_air_quality_data_def)

lemma counts_sum: "count_successes d + count_errors d = length d"
  by (simp add: count_successes_def count_errors_def sum_length_filter_compl add.commute)

lemma prepare_length:
  "prepare_observations w cs wd ad acc = (Inr obs, w') \<Longrightarrow> length obs = length acc + length cs"
proof (induction cs arbitrary: w acc)
  case Nil
  then show ?case by simp
next
  case (Cons c cs)
  then show ?case by (auto split: prod.splits sum.splits)
qed

lemma load_calls_load:
  "load_observations_to_db w obs = (r, w') \<Longrightarrow> load_calls w' = load_calls w @ [obs]"
  by (auto simp: load_observations_to_db_def Let_def utcnow_def split: option.splits sum.splits if_splits prod.splits)

lemma run_success:
  assumes "run_etl self w = (summary, w')" "dict_get summary ''status'' JNull = JStr ''success''"
  obtains weather_dict aqi_dict w0 w1 w2 w3 w4 obs n where
      "get_weather_for_cities (weather_client_of self) w0 (cities self) = (weather_dict, w1)"
      "fetch_air_quality_data (air_quality_client_of self) w1 weather_dict = (aqi_dict, w2)"
      "prepare_observations w2 (cities self) weather_dict aqi_dict [] = (Inr obs, w3)"
      "load_observations_to_db w3 obs = (Inr n, w4)"
      "load_calls w' = load_calls w4"
      "dict_get summary ''cities_processed'' JNull = JNum (real (length (cities self)))"
      "dict_get summary ''records_loaded'' JNull = JNum (real n)"
      "dict_get summary ''weather_successes'' JNull = JNum (real (count_successes weather_dict))"
      "dict_get summary ''weather_errors'' JNull = JNum (real (count_errors weather_dict))"
      "dict_get summary ''aqi_successes'' JNull = JNum (real (count_successes aqi_dict))"
      "dict_get summary ''aqi_errors'' JNull = JNum (real (count_errors aqi_dict))"
proof -
  let ?w0 = "w\<lparr>clock_reads := Suc (clock_reads w)\<rparr>"
  obtain wd w1 where a: "get_weather_for_cities (weather_client_of self) ?w0 (cities self) = (wd, w1)"
    by (cases "get_weather_for_cities (weather_client_of self) ?w0 (cities self)")
  obtain ad w2 where b: "fetch_air_quality_data (air_quality_client_of self) w1 wd = (ad, w2)"
    by (cases "fetch_air_quality_data (air_quality_client_of self) w1 wd")
  obtain r3 w3 where c: "prepare_observations w2 (cities self) wd ad [] = (r3, w3)"
    by (cases "prepare_observations w2 (cities self) wd ad []")
  show ?thesis
  proof (cases r3)
    case (Inl e)
    then have "dict_get summary ''status'' JNull = JStr ''error''"
      using assms(1) a b c by (auto simp: run_etl_def etl_try_def utcnow_def dict_get_def)
    then show ?thesis using assms(2) by simp
  next
    case (Inr obs)
    obtain r4 w4 where d: "load_observations_to_db w3 obs = (r4, w4)"
      by (cases "load_observations_to_db w3 obs")
    show ?thesis
    proof (cases r4)
      case (Inl e)
      then have "dict_get summary ''status'' JNull = JStr ''error''"
        using assms(1) a b c d Inr by (auto simp: run_etl_def etl_try_def utcnow_def dict_get_def)
      then show ?thesis using assms(2) by simp
    next
      case r: (Inr n)
      have s: "summary = [(''start_time'', JStr (fmt_time ?w0 (clock w (clock_reads w)))),
                  (''end_time'', JStr (fmt_time ?w0 (clock w4 (clock_reads w4)))),
                  (''duration_seconds'', JNum (clock w4 (clock_reads w4) - clock w (clock_reads w))),
                  (''cities_processed'', JNum (real (length (cities self)))),
                  (''records_loaded'', JNum (real n)),
                  (''weather_successes'', JNum (real (count_successes wd))),
                  (''weather_errors'', JNum (real (count_errors wd))),
                  (''aqi_successes'', JNum (real (count_successes ad))),
                  (''aqi_errors'', JNum (real (count_errors ad))),
                  (''status'', JStr ''success'')]"
        and w': "w' = w4\<lparr>clock_reads := Suc (clock_reads w4)\<rparr>"
        using assms(1) a b c d Inr r by (auto simp: run_etl_def etl_try_def utcnow_def)
      show ?thesis
        by (rule that[OF a b c[unfolded Inr] d[unfolded r]]) (simp_all add: s w' dict_get_def)
    qed
  qed
qed


lemmas run_eval_defs = run_etl_def etl_try_def get_weather_for_cities_def parse_city_country_def
  first_part_def strip_def is_space_def get_current_weather_by_city_def error_envelope_def
  utcnow_def make_request_def upt_conv_Cons test_world_def scripted_net_def requests_get_def
  except_clauses_def city_query_def weather_url_def weather_params_def test_client_def Let_def
  fetch_air_quality_data_def fetch_aqi_entry_def aqi_plain_error_def
  prepare_observation_record_def make_record_def load_observations_to_db_def
  insert_on_conflict_def same_key_def new_row_def do_update_def has_key_def dict_get_def
  dict_set_def count_errors_def count_successes_def test_etl_def init_db_world_def
  unique_index_world_def db_down_world_def not_found_def

text \<open>
  C10 (as amended). In the summary of a successful run the success and error counts of
  each source add up to the number of distinct configured cities, which is
  \<open>cities_processed\<close> when no city is configured twice; the batch handed to the loader
  holds one record per entry of the city list.
\<close>

theorem run_summary_counts:
  assumes "run_etl self w = (summary, w')"
    and "dict_get summary ''status'' JNull = JStr ''success''"
  shows "\<exists>ws we qs qe obs.
      dict_get summary ''weather_successes'' JNull = JNum (real ws)
    \<and> dict_get summary ''weather_errors'' JNull = JNum (real we)
    \<and> dict_get summary ''aqi_successes'' JNull = JNum (real qs)
    \<and> dict_get summary ''aqi_errors'' JNull = JNum (real qe)
    \<and> dict_get summary ''cities_processed'' JNull = JNum (real (length (cities self)))
    \<and> ws + we = card (set (cities self)) \<and> qs + qe = card (set (cities self))
    \<and> (distinct (cities self) \<longrightarrow>
          ws + we = length (cities self) \<and> qs + qe = length (cities self))
    \<and> load_calls w' \<noteq> [] \<and> last (load_calls w') = obs
    \<and> length obs = length (cities self)"
proof -
  from assms obtain weather_dict aqi_dict w0 w1 w2 w3 w4 obs n where
    a: "get_weather_for_cities (weather_client_of self) w0 (cities self) = (weather_dict, w1)"
    and b: "fetch_air_quality_data (air_quality_client_of self) w1 weather_dict = (aqi_dict, w2)"
    and c: "prepare_observations w2 (cities self) weather_dict aqi_dict [] = (Inr obs, w3)"
    and d: "load_observations_to_db w3 obs = (Inr n, w4)"
    and e: "load_calls w' = load_calls w4"
    and s: "dict_get summary ''cities_processed'' JNull = JNum (real (length (cities self)))"
      "dict_get summary ''weather_successes'' JNull = JNum (real (count_successes weather_dict))"
      "dict_get summary ''weather_errors'' JNull = JNum (real (count_errors weather_dict))"
      "dict_get summary ''aqi_successes'' JNull = JNum (real (count_successes aqi_dict))"
      "dict_get summary ''aqi_errors'' JNull = JNum (real (count_errors aqi_dict))"
    by (rule run_success)
  have lw: "length weather_dict = card (set (cities self))"
    by (rule weather_dict_keys(3)[OF a])
  have "length (map fst aqi_dict) = length (map fst weather_dict)"
    using aqi_dict_keys[OF b weather_dict_keys(1)[OF a]] by simp
  then have la: "length aqi_dict = card (set (cities self))" using lw by simp
  have ws: "count_successes weather_dict + count_errors weather_dict = card (set (cities self))"
    using counts_sum[of weather_dict] lw by simp
  have qs: "count_successes aqi_dict + count_errors aqi_dict = card (set (cities self))"
    using counts_sum[of aqi_dict] la by simp
  have lo: "length obs = length (cities self)" using prepare_length[OF c] by simp
  have lc: "load_calls w' \<noteq> [] \<and> last (load_calls w') = obs"
    using load_calls_load[OF d] e by simp
  have dc: "distinct (cities self) \<longrightarrow> card (set (cities self)) = length (cities self)"
    by (simp add: distinct_card)
  show ?thesis using s ws qs lo lc dc by metis
qed

theorem run_summary_counts_witness:
  "\<exists>ws we qs qe obs.
      dict_get (fst (run_etl (test_etl [''Paris'', ''Rome'']) unique_index_world))
        ''weather_errors'' JNull = JNum (real we)
    \<and> ws + we = (2::nat) \<and> qs + qe = (2::nat) \<and> length obs = 2
    \<and> last (load_calls (snd (run_etl (test_etl [''Paris'', ''Rome'']) unique_index_world))) = obs"
proof -
  let ?run = "run_etl (test_etl [''Paris'', ''Rome'']) unique_index_world"
  have r: "?run = (fst ?run, snd ?run)" by simp
  have st: "dict_get (fst ?run) ''status'' JNull = JStr ''success''"
    by (simp add: run_eval_defs)
  have cs: "cities (test_etl [''Paris'', ''Rome'']) = [''Paris'', ''Rome'']"
    by (simp add: test_etl_def)
  have dc: "distinct (cities (test_etl [''Paris'', ''Rome'']))" by (simp add: cs)
  from run_summary_counts[OF r st] obtain ws we qs qe obs where
    f1: "dict_get (fst ?run) ''weather_errors'' JNull = JNum (real we)"
    and f2: "distinct (cities (test_etl [''Paris'', ''Rome''])) \<longrightarrow>
       ws + we = length (cities (test_etl [''Paris'', ''Rome'']))
       \<and> qs + qe = length (cities (test_etl [''Paris'', ''Rome'']))"
    and f3: "last (load_calls (snd ?run)) = obs"
    and f4: "length obs = length (cities (test_etl [''Paris'', ''Rome'']))"
    by blast
  have "ws + we = 2" "qs + qe = 2" "length obs = 2"
    using f2 f4 dc by (simp_all add: cs)
  with f1 f3 show ?thesis by blast
qed

text \<open>
  C10 as stated fails when a city is configured twice: the weather dict has one entry
  for it, so 0 successes and 1 error are reported for 2 cities processed.
\<close>

theorem run_summary_duplicate_city:
  "fst (run_etl (test_etl [''Paris'', ''Paris'']) unique_index_world)
     = [(''start_time'', JStr ''T''), (''end_time'', JStr ''T''),
        (''duration_seconds'', JNum 7), (''cities_processed'', JNum 2),
        (''records_loaded'', JNum 2), (''weather_successes'', JNum 0),
        (''weather_errors'', JNum 1), (''aqi_successes'', JNum 0),
        (''aqi_errors'', JNum 1), (''status'', JStr ''success'')]"
  by (simp add: run_eval_defs)




section \<open>Air quality after a failed weather fetch\<close>















section \<open>The upsert and the natural key\<close>

lemma same_key_row_key: "same_key ob r \<longleftrightarrow> row_key r = (ob_city ob, ob_observation_time ob)"
  by (auto simp: same_key_def row_key_def)

lemma row_key_do_update: "row_key (do_update now ob r) = row_key r"
  by (simp add: row_key_def do_update_def)

lemma row_key_new_row: "row_key (new_row now i ob) = (ob_city ob, ob_observation_time ob)"
  by (simp add: row_key_def new_row_def)

lemma conflict_iff:
  "filter (same_key ob) table \<noteq> [] \<longleftrightarrow> (ob_city ob, ob_observation_time ob) \<in> set (map row_key table)"
  by (force simp: filter_empty_conv same_key_row_key)

lemma insert_on_conflict_keys:
  "map row_key (fst (insert_on_conflict now ob (table, n)))
     = (if (ob_city ob, ob_observation_time ob) \<in> set (map row_key table) then map row_key table
        else map row_key table @ [(ob_city ob, ob_observation_time ob)])"
proof (cases "filter (same_key ob) table \<noteq> []")
  case True
  have "map row_key (map (\<lambda>r. if same_key ob r then do_update now ob r else r) table) = map row_key table"
    by (induction table) (simp_all add: row_key_do_update)
  then show ?thesis using True conflict_iff[of ob table]
    by (simp add: insert_on_conflict_def)
next
  case False
  then show ?thesis using conflict_iff[of ob table]
    by (simp add: insert_on_conflict_def row_key_new_row)
qed

lemma insert_on_conflict_distinct:
  "keys_distinct table \<Longrightarrow> keys_distinct (fst (insert_on_conflict now ob (table, n)))"
  unfolding keys_distinct_def insert_on_conflict_keys by auto

lemma executemany_distinct:
  "executemany True now obs (table, n) = Inr (table', n') \<Longrightarrow> keys_distinct table \<Longrightarrow>
     keys_distinct table'"
proof (induction obs arbitrary: table n)
  case Nil
  then show ?case by simp
next
  case (Cons ob obs)
  obtain t1 n1 where i: "insert_on_conflict now ob (table, n) = (t1, n1)"
    by (cases "insert_on_conflict now ob (table, n)")
  have "keys_distinct t1" using insert_on_conflict_distinct[OF Cons.prems(2), of now ob n] i by simp
  moreover have "executemany True now obs (t1, n1) = Inr (table', n')" using Cons.prems(1) i by simp
  ultimately show ?case by (rule Cons.IH[rotated])
qed

lemma executemany_unique_total:
  "\<exists>table' n'. executemany True now obs (table, n) = Inr (table', n')"
proof (induction obs arbitrary: table n)
  case Nil
  then show ?case by simp
next
  case (Cons ob obs)
  then show ?case by (cases "insert_on_conflict now ob (table, n)") simp
qed

lemma distinct_filter_key:
  "distinct (map f xs) \<Longrightarrow> length (filter (\<lambda>x. f x = k) xs) \<le> 1"
proof (induction xs)
  case Nil
  then show ?case by simp
next
  case (Cons a xs)
  show ?case
  proof (cases "f a = k")
    case True
    then have "filter (\<lambda>x. f x = k) xs = []"
      using Cons.prems by (auto simp: filter_empty_conv intro: rev_image_eqI)
    then show ?thesis using True by simp
  next
    case False
    then show ?thesis using Cons by simp
  qed
qed

lemma same_key_fun: "same_key ob = (\<lambda>r. row_key r = (ob_city ob, ob_observation_time ob))"
  by (rule ext) (simp add: same_key_row_key)

lemma insert_on_conflict_member:
  assumes "r \<in> set (fst (insert_on_conflict now ob (table, n)))" "same_key ob r"
  shows "ob_country r = ob_country ob \<and> ob_latitude r = ob_latitude ob
     \<and> ob_longitude r = ob_longitude ob \<and> ob_weather_data r = ob_weather_data ob
     \<and> ob_air_quality_data r = ob_air_quality_data ob \<and> updated_at r = now"
proof (cases "filter (same_key ob) table \<noteq> []")
  case True
  then have "r \<in> (\<lambda>x. if same_key ob x then do_update now ob x else x) ` set table"
    using assms(1) by (simp add: insert_on_conflict_def)
  then obtain r0 where "r = (if same_key ob r0 then do_update now ob r0 else r0)"
    by blast
  then have "r = do_update now ob r0" using assms(2) by (cases "same_key ob r0") auto
  then show ?thesis by (simp add: do_update_def)
next
  case False
  then have nt: "r \<notin> set table" using assms(2) by (auto simp: filter_empty_conv)
  have "r \<in> set (table @ [new_row now n ob])"
    using assms(1) False by (simp add: insert_on_conflict_def)
  then have "r = new_row now n ob" using nt by simp
  then show ?thesis by (simp add: new_row_def)
qed

lemma insert_on_conflict_row:
  assumes "keys_distinct table"
  shows "\<exists>r. filter (same_key ob) (fst (insert_on_conflict now ob (table, n))) = [r]
     \<and> ob_country r = ob_country ob \<and> ob_latitude r = ob_latitude ob
     \<and> ob_longitude r = ob_longitude ob \<and> ob_weather_data r = ob_weather_data ob
     \<and> ob_air_quality_data r = ob_air_quality_data ob \<and> updated_at r = now"
proof -
  let ?t' = "fst (insert_on_conflict now ob (table, n))"
  let ?k = "(ob_city ob, ob_observation_time ob)"
  have d: "distinct (map row_key ?t')"
    using insert_on_conflict_distinct[OF assms, of now ob n] by (simp add: keys_distinct_def)
  have len: "length (filter (same_key ob) ?t') \<le> 1"
    unfolding same_key_fun by (rule distinct_filter_key[OF d])
  have "?k \<in> set (map row_key ?t')"
    unfolding insert_on_conflict_keys by simp
  then have ne: "filter (same_key ob) ?t' \<noteq> []"
    by (simp only: conflict_iff)
  from len ne obtain r where r: "filter (same_key ob) ?t' = [r]"
    by (cases "filter (same_key ob) ?t'") auto
  then have "r \<in> set (filter (same_key ob) ?t')" by simp
  then have "r \<in> set ?t'" "same_key ob r" by simp_all
  from insert_on_conflict_member[OF this] r show ?thesis by blast
qed

lemma upsert_twice_with_unique_index:
  assumes "keys_distinct table" "ob_city ob1 = ob_city ob2"
    "ob_observation_time ob1 = ob_observation_time ob2"
  shows "\<exists>t2 n2 r. executemany True now [ob1, ob2] (table, n) = Inr (t2, n2)
     \<and> keys_distinct t2 \<and> filter (same_key ob2) t2 = [r]
     \<and> ob_country r = ob_country ob2 \<and> ob_latitude r = ob_latitude ob2
     \<and> ob_longitude r = ob_longitude ob2 \<and> ob_weather_data r = ob_weather_data ob2
     \<and> ob_air_quality_data r = ob_air_quality_data ob2 \<and> updated_at r = now"
proof -
  obtain t1 n1 where i1: "insert_on_conflict now ob1 (table, n) = (t1, n1)"
    by (cases "insert_on_conflict now ob1 (table, n)")
  obtain t2 n2 where i2: "insert_on_conflict now ob2 (t1, n1) = (t2, n2)"
    by (cases "insert_on_conflict now ob2 (t1, n1)")
  have d1: "keys_distinct t1"
    using insert_on_conflict_distinct[OF assms(1), of now ob1 n] i1 by simp
  have d2: "keys_distinct t2"
    using insert_on_conflict_distinct[OF d1, of now ob2 n1] i2 by simp
  have e: "executemany True now [ob1, ob2] (table, n) = Inr (t2, n2)"
    by (simp add: i1 i2)
  from insert_on_conflict_row[OF d1, of ob2 now n1] i2 e d2 show ?thesis by auto
qed


text \<open>
  With a unique index over the natural key, and only then, the loader does what C1
  describes: two writes of one key in a batch leave one row for the key, holding the
  second payload, stamped with the time of the write.
\<close>

lemma load_twice_with_unique_index:
  assumes "db_unique_city_time w" "db_connect_error w = None" "keys_distinct (db_table w)"
    and "ob_city ob1 = ob_city ob2" "ob_observation_time ob1 = ob_observation_time ob2"
  shows "\<exists>w' r. load_observations_to_db w [ob1, ob2] = (Inr 2, w')
     \<and> keys_distinct (db_table w') \<and> filter (same_key ob2) (db_table w') = [r]
     \<and> ob_country r = ob_country ob2 \<and> ob_latitude r = ob_latitude ob2
     \<and> ob_longitude r = ob_longitude ob2 \<and> ob_weather_data r = ob_weather_data ob2
     \<and> ob_air_quality_data r = ob_air_quality_data ob2
     \<and> updated_at r = clock w (clock_reads w)"
proof -
  from upsert_twice_with_unique_index[OF assms(3,4,5), of "clock w (clock_reads w)" "db_next_id w"]
  obtain t2 n2 r where
    e: "executemany True (clock w (clock_reads w)) [ob1, ob2] (db_table w, db_next_id w)
          = Inr (t2, n2)"
    and p: "keys_distinct t2" "filter (same_key ob2) t2 = [r]"
      "ob_country r = ob_country ob2" "ob_latitude r = ob_latitude ob2"
      "ob_longitude r = ob_longitude ob2" "ob_weather_data r = ob_weather_data ob2"
      "ob_air_quality_data r = ob_air_quality_data ob2"
      "updated_at r = clock w (clock_reads w)"
    by blast
  have "fst (load_observations_to_db w [ob1, ob2]) = Inr 2
      \<and> db_table (snd (load_observations_to_db w [ob1, ob2])) = t2"
    using assms(1,2) e by (simp add: load_observations_to_db_def Let_def utcnow_def)
  then have "load_observations_to_db w [ob1, ob2]
               = (Inr 2, snd (load_observations_to_db w [ob1, ob2]))"
    and "db_table (snd (load_observations_to_db w [ob1, ob2])) = t2"
    by (simp_all add: prod_eq_iff)
  with p show ?thesis by metis
qed

text \<open>
  C1, evaluated on the table as \<^verbatim>\<open>init_db\<close> creates it. That table has a plain index over
  \<^verbatim>\<open>(city, observation_time)\<close> and no unique one, so the conflict target of the upsert
  matches no arbiter index: the statement is rejected, the loader re-raises, and two
  writes of one key with different payloads leave no row at all.
\<close>

theorem upsert_rejected_on_init_db_table:
  "fst (load_observations_to_db init_db_world [ob_first, ob_second])
     = Inl (Exn DatabaseError
         ''there is no unique or exclusion constraint matching the ON CONFLICT specification'')
   \<and> db_table (snd (load_observations_to_db init_db_world [ob_first, ob_second])) = []
   \<and> ob_city ob_first = ob_city ob_second
   \<and> ob_observation_time ob_first = ob_observation_time ob_second
   \<and> ob_weather_data ob_first \<noteq> ob_weather_data ob_second"
  by (simp add: load_observations_to_db_def Let_def utcnow_def init_db_world_def
      test_world_def ob_first_def ob_second_def)

end
